theory Spec2Isabelle
  imports Main
begin

section \<open>JSON values and JavaScript objects\<close>

text \<open>
  Request and response bodies are JSON. An object is an association list of its own
  properties; reading a property that is not there gives \<open>undefined\<close>, which is
  \<open>None\<close> here. Numbers are kept as integers: the routes only test them for
  truthiness.
\<close>

datatype json =
    JNull
  | JBool bool
  | JNum int
  | JStr string
  | JArr "json list"
  | JObj "(string \<times> json) list"

text \<open>A thrown error is represented by the text \<open>String(error)\<close> gives for it.\<close>

type_synonym exn = string

text \<open>Dates are kept in the ISO text a JSON response shows them in.\<close>

type_synonym date = string

definition js_get :: "json \<Rightarrow> string \<Rightarrow> json option" where
  "js_get b k = (case b of JObj kvs \<Rightarrow> map_of kvs k | _ \<Rightarrow> None)"

text \<open>JavaScript truthiness: \<open>!x\<close> is \<open>\<not> truthy x\<close>.\<close>

fun truthy :: "json option \<Rightarrow> bool" where
  "truthy None = False"
| "truthy (Some JNull) = False"
| "truthy (Some (JBool b)) = b"
| "truthy (Some (JNum n)) = (n \<noteq> 0)"
| "truthy (Some (JStr s)) = (s \<noteq> [])"
| "truthy (Some (JArr xs)) = True"
| "truthy (Some (JObj kvs)) = True"

text \<open>
  \<open>const { email, ... } = body\<close>: destructuring \<open>null\<close> throws a TypeError; a
  number, string, boolean or array has none of the properties, so each is \<open>undefined\<close>.
\<close>

definition destructure :: "json \<Rightarrow> exn + json" where
  "destructure b =
     (case b of
        JNull \<Rightarrow> Inl ''TypeError: Cannot destructure property 'email' of 'body' as it is null.''
      | _ \<Rightarrow> Inr b)"

text \<open>\<open>const { password: _, ...rest } = obj\<close>: the object without one property.\<close>

definition omit :: "string \<Rightarrow> (string \<times> json) list \<Rightarrow> (string \<times> json) list" where
  "omit k kvs = filter (\<lambda>kv. fst kv \<noteq> k) kvs"

text \<open>Whether a property name occurs anywhere in a JSON value, at any depth.\<close>

fun json_has_key :: "string \<Rightarrow> json \<Rightarrow> bool" where
  "json_has_key k (JObj kvs) = (\<exists>kv \<in> set kvs. fst kv = k \<or> json_has_key k (snd kv))"
| "json_has_key k (JArr xs) = (\<exists>v \<in> set xs. json_has_key k v)"
| "json_has_key k JNull = False"
| "json_has_key k (JBool b) = False"
| "json_has_key k (JNum n) = False"
| "json_has_key k (JStr s) = False"

section \<open>Requests and responses\<close>

text \<open>
  \<open>json_body\<close> is what \<open>await request.json()\<close> gives: the parsed body, or the
  SyntaxError it rejects with. Header names are lower case, as the Fetch API keeps them.
\<close>

record request =
  headers :: "(string \<times> string) list"
  json_body :: "exn + json"

definition headers_get :: "request \<Rightarrow> string \<Rightarrow> string option" where
  "headers_get req name = map_of (headers req) name"

record response =
  status :: nat
  body :: json
  cookies :: "(string \<times> string) list"

definition NextResponse_json :: "json \<Rightarrow> nat \<Rightarrow> response" where
  "NextResponse_json b s = \<lparr>status = s, body = b, cookies = []\<rparr>"

section \<open>The User table behind the ORM client\<close>

text \<open>
  Modelled from the spec: \<open>prisma/schema.prisma\<close> is not under src/. The columns are
  those the routes read and write (\<open>id\<close>, \<open>email\<close>, \<open>password\<close>, \<open>fullName\<close>,
  \<open>role\<close>, \<open>dateOfBirth\<close>, \<open>createdAt\<close>) and \<open>updatedAt\<close>, which the spec's data
  model and the setup checklist of the repository list; \<open>fullName\<close> and
  \<open>dateOfBirth\<close> are optional, \<open>role\<close> is a string, \<open>id\<close> is the primary key and
  \<open>email\<close> is unique.
\<close>

record user =
  id :: string
  email :: string
  password :: string
  fullName :: "string option"
  role :: string
  dateOfBirth :: "date option"
  createdAt :: date
  updatedAt :: date

definition opt_json :: "string option \<Rightarrow> json" where
  "opt_json v = (case v of None \<Rightarrow> JNull | Some s \<Rightarrow> JStr s)"

text \<open>A row as the JavaScript object the client returns, every column included.\<close>

definition user_obj :: "user \<Rightarrow> (string \<times> json) list" where
  "user_obj u =
     [(''id'', JStr (id u)),
      (''email'', JStr (email u)),
      (''password'', JStr (password u)),
      (''fullName'', opt_json (fullName u)),
      (''role'', JStr (role u)),
      (''dateOfBirth'', opt_json (dateOfBirth u)),
      (''createdAt'', JStr (createdAt u)),
      (''updatedAt'', JStr (updatedAt u))]"

text \<open>
  The store: the rows of the table, and \<open>fault\<close>, the error every query rejects with
  while the database cannot be reached (\<open>None\<close> when it is up).
\<close>

record db =
  rows :: "user list"
  fault :: "exn option"

text \<open>
  The world outside a request: the clock (seconds, for token expiry), the process
  environment, and what the persistence layer would generate for the next row.
\<close>

record world =
  now :: nat
  NODE_ENV :: "string option"
  env_JWT_SECRET :: "string option"
  fresh_id :: string
  clock_iso :: date

text \<open>\<open>prisma.user.findUnique({ where: { email } })\<close>; a non-string argument is rejected.\<close>

definition prisma_user_findUnique_email :: "db \<Rightarrow> json option \<Rightarrow> exn + user option" where
  "prisma_user_findUnique_email d v =
     (case fault d of
        Some e \<Rightarrow> Inl e
      | None \<Rightarrow>
          (case v of
             Some (JStr e) \<Rightarrow> Inr (find (\<lambda>u. email u = e) (rows d))
           | _ \<Rightarrow> Inl ''PrismaClientValidationError: Invalid `prisma.user.findUnique()` invocation''))"

text \<open>\<open>prisma.user.findUnique({ where: { id } })\<close>.\<close>

definition prisma_user_findUnique_id :: "db \<Rightarrow> json option \<Rightarrow> exn + user option" where
  "prisma_user_findUnique_id d v =
     (case fault d of
        Some e \<Rightarrow> Inl e
      | None \<Rightarrow>
          (case v of
             Some (JStr i) \<Rightarrow> Inr (find (\<lambda>u. id u = i) (rows d))
           | _ \<Rightarrow> Inl ''PrismaClientValidationError: Invalid `prisma.user.findUnique()` invocation''))"

text \<open>\<open>new Date(x)\<close> is a date or the Invalid Date.\<close>

datatype js_date = ValidDate date | InvalidDate

record create_data =
  cd_email :: "json option"
  cd_password :: string
  cd_fullName :: "json option"
  cd_role :: "json option"
  cd_dateOfBirth :: "js_date option"

definition optional_string :: "json option \<Rightarrow> bool" where
  "optional_string v = (case v of None \<Rightarrow> True | Some JNull \<Rightarrow> True | Some (JStr s) \<Rightarrow> True | _ \<Rightarrow> False)"

definition string_of :: "json option \<Rightarrow> string option" where
  "string_of v = (case v of Some (JStr s) \<Rightarrow> Some s | _ \<Rightarrow> None)"

text \<open>
  \<open>prisma.user.create({ data })\<close>: the arguments are checked against the column types,
  then the unique constraints, and the new row is appended.
\<close>

definition prisma_user_create :: "world \<Rightarrow> db \<Rightarrow> create_data \<Rightarrow> exn + (db \<times> user)" where
  "prisma_user_create w d cd =
     (case fault d of
        Some e \<Rightarrow> Inl e
      | None \<Rightarrow>
          (case (string_of (cd_email cd), string_of (cd_role cd)) of
             (Some e, Some r) \<Rightarrow>
               if \<not> optional_string (cd_fullName cd) \<or> cd_dateOfBirth cd = Some InvalidDate
               then Inl ''PrismaClientValidationError: Invalid `prisma.user.create()` invocation''
               else if e \<in> set (map email (rows d)) \<or> fresh_id w \<in> set (map id (rows d))
               then Inl ''PrismaClientKnownRequestError: Unique constraint failed''
               else
                 let newUser = \<lparr>id = fresh_id w, email = e, password = cd_password cd,
                                fullName = string_of (cd_fullName cd), role = r,
                                dateOfBirth = (case cd_dateOfBirth cd of
                                                 Some (ValidDate t) \<Rightarrow> Some t | _ \<Rightarrow> None),
                                createdAt = clock_iso w, updatedAt = clock_iso w\<rparr>
                 in Inr (d\<lparr>rows := rows d @ [newUser]\<rparr>, newUser)
           | _ \<Rightarrow> Inl ''PrismaClientValidationError: Invalid `prisma.user.create()` invocation''))"

section \<open>Third-party libraries\<close>

text \<open>
  The hashing, token, validation and date libraries are not code of this repository.
  The routes are modelled over any behaviour of theirs: each call either returns or
  throws. \<open>lib_auth_login\<close> stands for the \<open>login\<close> helper the cookie variant of the
  login route imports from \<open>@/lib/auth\<close>.
\<close>

record libs =
  bcrypt_hash :: "json option \<Rightarrow> nat \<Rightarrow> exn + string"
  bcrypt_compare :: "json option \<Rightarrow> string \<Rightarrow> exn + bool"
  jwt_sign :: "json \<Rightarrow> string \<Rightarrow> nat \<Rightarrow> nat \<Rightarrow> exn + string"
  jwt_verify :: "string \<Rightarrow> string \<Rightarrow> nat \<Rightarrow> exn + json"
  zod_email :: "string \<Rightarrow> bool"
  new_Date :: "json option \<Rightarrow> js_date"
  lib_auth_login :: "json \<Rightarrow> exn + (string \<times> string)"

section \<open>POST /api/auth/signup\<close>

definition signup_try :: "libs \<Rightarrow> world \<Rightarrow> db \<Rightarrow> request \<Rightarrow> exn + (db \<times> response)" where
  "signup_try L w d req =
     (case json_body req of Inl e \<Rightarrow> Inl e | Inr body0 \<Rightarrow>
     (case destructure body0 of Inl e \<Rightarrow> Inl e | Inr b \<Rightarrow>
        if \<not> truthy (js_get b ''email'') \<or> \<not> truthy (js_get b ''password'') \<or> \<not> truthy (js_get b ''role'')
        then Inr (d, NextResponse_json (JObj [(''error'', JStr ''Missing required fields'')]) 400)
        else
          (case prisma_user_findUnique_email d (js_get b ''email'') of Inl e \<Rightarrow> Inl e
           | Inr (Some existingUser) \<Rightarrow>
               Inr (d, NextResponse_json (JObj [(''error'', JStr ''User already exists'')]) 400)
           | Inr None \<Rightarrow>
               (case bcrypt_hash L (js_get b ''password'') 10 of Inl e \<Rightarrow> Inl e
                | Inr hashedPassword \<Rightarrow>
                    (case prisma_user_create w d
                            \<lparr>cd_email = js_get b ''email'',
                             cd_password = hashedPassword,
                             cd_fullName = js_get b ''fullName'',
                             cd_role = js_get b ''role'',
                             cd_dateOfBirth =
                               (if truthy (js_get b ''dateOfBirth'')
                                then Some (new_Date L (js_get b ''dateOfBirth'')) else None)\<rparr> of
                       Inl e \<Rightarrow> Inl e
                     | Inr (d', newUser) \<Rightarrow>
                         Inr (d', NextResponse_json (JObj (omit ''password'' (user_obj newUser))) 201))))))"

text \<open>The \<open>catch\<close> of the route: any thrown error becomes a 500 that carries its text.\<close>

definition signup_POST :: "libs \<Rightarrow> world \<Rightarrow> db \<Rightarrow> request \<Rightarrow> db \<times> response" where
  "signup_POST L w d req =
     (case signup_try L w d req of
        Inr r \<Rightarrow> r
      | Inl error \<Rightarrow>
          (d, NextResponse_json
                (JObj [(''error'', JStr ''Something went wrong''), (''details'', JStr error)]) 500))"

section \<open>Token helpers (lib/auth.ts)\<close>

text \<open>\<open>process.env.JWT_SECRET || "ruraledu-secret-key-change-in-production"\<close>.\<close>

definition JWT_SECRET :: "world \<Rightarrow> string" where
  "JWT_SECRET w =
     (case env_JWT_SECRET w of
        Some s \<Rightarrow> if s = [] then ''ruraledu-secret-key-change-in-production'' else s
      | None \<Rightarrow> ''ruraledu-secret-key-change-in-production'')"

text \<open>\<open>expiresIn: "7d"\<close>, in seconds.\<close>

definition seven_days :: nat where
  "seven_days = 7 * 24 * 60 * 60"

text \<open>
  \<open>verifyToken\<close> reads the \<open>authorization\<close> header only. Whatever \<open>jwt.verify\<close>
  throws is caught and becomes \<open>null\<close>.
\<close>

definition verifyToken :: "libs \<Rightarrow> world \<Rightarrow> request \<Rightarrow> json option" where
  "verifyToken L w req =
     (case headers_get req ''authorization'' of
        None \<Rightarrow> None
      | Some authHeader \<Rightarrow>
          if authHeader = [] \<or> take 7 authHeader \<noteq> ''Bearer '' then None
          else
            (case jwt_verify L (drop 7 authHeader) (JWT_SECRET w) (now w) of
               Inl error \<Rightarrow> None
             | Inr decoded \<Rightarrow> Some decoded))"

definition generateToken :: "libs \<Rightarrow> world \<Rightarrow> json \<Rightarrow> exn + string" where
  "generateToken L w payload = jwt_sign L payload (JWT_SECRET w) seven_days (now w)"

section \<open>POST /api/auth/login\<close>

text \<open>
  The file of the login route holds both sides of an unresolved merge: the side marked
  HEAD validates with a schema and returns a bearer token, the other side sets a session
  cookie. Both are modelled.
\<close>

subsection \<open>The HEAD side: schema validation and a bearer token\<close>

text \<open>
  \<open>loginSchema.safeParse(body)\<close>. An issue is shown with its \<open>code\<close>,
  \<open>message\<close> and \<open>path\<close>; the syntax test of \<open>z.string().email()\<close> is the
  library's \<open>zod_email\<close>.
\<close>

definition zod_issue :: "string \<Rightarrow> string \<Rightarrow> string list \<Rightarrow> json" where
  "zod_issue code message path =
     JObj [(''code'', JStr code), (''message'', JStr message), (''path'', JArr (map JStr path))]"

definition zod_received :: "json \<Rightarrow> string" where
  "zod_received v =
     (case v of
        JNull \<Rightarrow> ''null'' | JBool b \<Rightarrow> ''boolean'' | JNum n \<Rightarrow> ''number''
      | JStr s \<Rightarrow> ''string'' | JArr xs \<Rightarrow> ''array'' | JObj kvs \<Rightarrow> ''object'')"

definition zod_string :: "string \<Rightarrow> json option \<Rightarrow> json list + string" where
  "zod_string key v =
     (case v of
        None \<Rightarrow> Inl [zod_issue ''invalid_type'' ''Required'' [key]]
      | Some (JStr s) \<Rightarrow> Inr s
      | Some x \<Rightarrow>
          Inl [zod_issue ''invalid_type'' (''Expected string, received '' @ zod_received x) [key]])"

definition schema_email :: "libs \<Rightarrow> json option \<Rightarrow> json list + string" where
  "schema_email L v =
     (case zod_string ''email'' v of
        Inl issues \<Rightarrow> Inl issues
      | Inr s \<Rightarrow>
          if zod_email L s then Inr s
          else Inl [zod_issue ''invalid_string'' ''Invalid email address'' [''email'']])"

definition schema_password :: "json option \<Rightarrow> json list + string" where
  "schema_password v =
     (case zod_string ''password'' v of
        Inl issues \<Rightarrow> Inl issues
      | Inr s \<Rightarrow>
          if 1 \<le> length s then Inr s
          else Inl [zod_issue ''too_small'' ''Password is required'' [''password'']])"

definition issues_of :: "json list + string \<Rightarrow> json list" where
  "issues_of r = (case r of Inl issues \<Rightarrow> issues | Inr s \<Rightarrow> [])"

definition loginSchema_safeParse :: "libs \<Rightarrow> json \<Rightarrow> json list + (string \<times> string)" where
  "loginSchema_safeParse L b =
     (case b of
        JObj kvs \<Rightarrow>
          (case (schema_email L (map_of kvs ''email''), schema_password (map_of kvs ''password'')) of
             (Inr em, Inr pw) \<Rightarrow> Inr (em, pw)
           | (re, rp) \<Rightarrow> Inl (issues_of re @ issues_of rp))
      | _ \<Rightarrow> Inl [zod_issue ''invalid_type'' (''Expected object, received '' @ zod_received b) []])"

text \<open>The payload signed into the token: \<open>{ id, email, role }\<close> of the row found.\<close>

definition token_payload :: "user \<Rightarrow> json" where
  "token_payload u =
     JObj [(''id'', JStr (id u)), (''email'', JStr (email u)), (''role'', JStr (role u))]"

definition invalid_email_or_password :: response where
  "invalid_email_or_password =
     NextResponse_json
       (JObj [(''success'', JBool False), (''message'', JStr ''Invalid email or password'')]) 401"

definition login_head_try :: "libs \<Rightarrow> world \<Rightarrow> db \<Rightarrow> request \<Rightarrow> exn + response" where
  "login_head_try L w d req =
     (case json_body req of Inl e \<Rightarrow> Inl e | Inr b \<Rightarrow>
     (case loginSchema_safeParse L b of
        Inl errors \<Rightarrow>
          Inr (NextResponse_json
                 (JObj [(''success'', JBool False), (''message'', JStr ''Validation failed''),
                        (''errors'', JArr errors)]) 400)
      | Inr (em, pw) \<Rightarrow>
          (case prisma_user_findUnique_email d (Some (JStr em)) of Inl e \<Rightarrow> Inl e
           | Inr None \<Rightarrow> Inr invalid_email_or_password
           | Inr (Some u) \<Rightarrow>
               (case bcrypt_compare L (Some (JStr pw)) (password u) of Inl e \<Rightarrow> Inl e
                | Inr isValidPassword \<Rightarrow>
                    if \<not> isValidPassword then Inr invalid_email_or_password
                    else
                      (case jwt_sign L (token_payload u) (JWT_SECRET w) seven_days (now w) of
                         Inl e \<Rightarrow> Inl e
                       | Inr token \<Rightarrow>
                           Inr (NextResponse_json
                                  (JObj [(''success'', JBool True),
                                         (''message'', JStr ''Login successful''),
                                         (''token'', JStr token),
                                         (''user'', JObj (omit ''password'' (user_obj u)))]) 200))))))"

text \<open>
  The \<open>catch\<close>: the error text is in the body only when \<open>NODE_ENV\<close> is
  \<open>development\<close>; otherwise the property is \<open>undefined\<close> and is not serialised.
\<close>

definition login_POST_head :: "libs \<Rightarrow> world \<Rightarrow> db \<Rightarrow> request \<Rightarrow> response" where
  "login_POST_head L w d req =
     (case login_head_try L w d req of
        Inr r \<Rightarrow> r
      | Inl error \<Rightarrow>
          NextResponse_json
            (JObj ([(''success'', JBool False), (''message'', JStr ''Internal server error'')]
                   @ (if NODE_ENV w = Some ''development'' then [(''error'', JStr error)] else [])))
            500)"

subsection \<open>The other side: presence checks and a session cookie\<close>

definition invalid_credentials :: response where
  "invalid_credentials = NextResponse_json (JObj [(''error'', JStr ''Invalid credentials'')]) 401"

text \<open>
  Modelled from the spec: the \<open>login\<close> helper this side imports from \<open>@/lib/auth\<close> is
  not in the \<open>lib/auth.ts\<close> under src/. By the spec it sets the same payload as an
  HTTP-only cookie; \<open>lib_auth_login\<close> gives that cookie, or the error it throws.
\<close>

definition login_cookie_try :: "libs \<Rightarrow> world \<Rightarrow> db \<Rightarrow> request \<Rightarrow> exn + response" where
  "login_cookie_try L w d req =
     (case json_body req of Inl e \<Rightarrow> Inl e | Inr body0 \<Rightarrow>
     (case destructure body0 of Inl e \<Rightarrow> Inl e | Inr b \<Rightarrow>
        if \<not> truthy (js_get b ''email'') \<or> \<not> truthy (js_get b ''password'')
        then Inr (NextResponse_json (JObj [(''error'', JStr ''Missing email or password'')]) 400)
        else
          (case prisma_user_findUnique_email d (js_get b ''email'') of Inl e \<Rightarrow> Inl e
           | Inr None \<Rightarrow> Inr invalid_credentials
           | Inr (Some u) \<Rightarrow>
               (case bcrypt_compare L (js_get b ''password'') (password u) of Inl e \<Rightarrow> Inl e
                | Inr isPasswordValid \<Rightarrow>
                    if \<not> isPasswordValid then Inr invalid_credentials
                    else
                      (case lib_auth_login L (JObj (omit ''password'' (user_obj u))) of
                         Inl e \<Rightarrow> Inl e
                       | Inr cookie \<Rightarrow>
                           Inr \<lparr>status = 200,
                                body = JObj [(''message'', JStr ''Logged in successfully''),
                                             (''user'', JObj (omit ''password'' (user_obj u)))],
                                cookies = [cookie]\<rparr>)))))"

definition login_POST_cookie :: "libs \<Rightarrow> world \<Rightarrow> db \<Rightarrow> request \<Rightarrow> response" where
  "login_POST_cookie L w d req =
     (case login_cookie_try L w d req of
        Inr r \<Rightarrow> r
      | Inl error \<Rightarrow> NextResponse_json (JObj [(''error'', JStr ''Internal server error'')]) 500)"

section \<open>GET /api/auth/me\<close>

text \<open>\<open>select: { id, fullName, email, role, createdAt }\<close>: the row cut down to these columns.\<close>

definition select_keys :: "string list" where
  "select_keys = [''id'', ''fullName'', ''email'', ''role'', ''createdAt'']"

definition select_user :: "user \<Rightarrow> (string \<times> json) list" where
  "select_user u = filter (\<lambda>kv. fst kv \<in> set select_keys) (user_obj u)"

definition unauthorized :: response where
  "unauthorized =
     NextResponse_json
       (JObj [(''success'', JBool False),
              (''message'', JStr ''Unauthorized - Invalid or missing token'')]) 401"

definition user_not_found :: response where
  "user_not_found =
     NextResponse_json (JObj [(''success'', JBool False), (''message'', JStr ''User not found'')]) 404"

definition me_try :: "libs \<Rightarrow> world \<Rightarrow> db \<Rightarrow> request \<Rightarrow> exn + response" where
  "me_try L w d req =
     (case verifyToken L w req of
        None \<Rightarrow> Inr unauthorized
      | Some payload \<Rightarrow>
          if \<not> truthy (Some payload) then Inr unauthorized
          else
            (case prisma_user_findUnique_id d (js_get payload ''id'') of Inl e \<Rightarrow> Inl e
             | Inr None \<Rightarrow> Inr user_not_found
             | Inr (Some u) \<Rightarrow>
                 Inr (NextResponse_json
                        (JObj [(''success'', JBool True), (''user'', JObj (select_user u))]) 200)))"

definition me_GET :: "libs \<Rightarrow> world \<Rightarrow> db \<Rightarrow> request \<Rightarrow> response" where
  "me_GET L w d req =
     (case me_try L w d req of
        Inr r \<Rightarrow> r
      | Inl error \<Rightarrow>
          NextResponse_json
            (JObj [(''success'', JBool False), (''message'', JStr ''Internal server error'')]) 500)"

section \<open>Concrete collaborators and inputs\<close>

text \<open>
  Stand-ins for the libraries, and a small table, used to run the routes on concrete
  requests. The stand-in token is \<open>jwt.\<close> followed by the id it was signed for.
\<close>

definition demo_bcrypt_hash :: "json option \<Rightarrow> nat \<Rightarrow> exn + string" where
  "demo_bcrypt_hash v rounds =
     (case v of Some (JStr s) \<Rightarrow> Inr (''$2a$10$'' @ s) | _ \<Rightarrow> Inl ''Error: Illegal arguments'')"

definition demo_bcrypt_compare :: "json option \<Rightarrow> string \<Rightarrow> exn + bool" where
  "demo_bcrypt_compare v h =
     (case v of Some (JStr s) \<Rightarrow> Inr (''$2a$10$'' @ s = h) | _ \<Rightarrow> Inl ''Error: Illegal arguments'')"

definition demo_jwt_sign :: "json \<Rightarrow> string \<Rightarrow> nat \<Rightarrow> nat \<Rightarrow> exn + string" where
  "demo_jwt_sign p secret ttl t0 =
     (case js_get p ''id'' of
        Some (JStr i) \<Rightarrow> Inr (''jwt.'' @ i)
      | _ \<Rightarrow> Inl ''Error: payload without id'')"

definition demo_jwt_verify :: "string \<Rightarrow> string \<Rightarrow> nat \<Rightarrow> exn + json" where
  "demo_jwt_verify t secret t1 =
     (if take 4 t = ''jwt.'' then Inr (JObj [(''id'', JStr (drop 4 t))])
      else Inl ''JsonWebTokenError: jwt malformed'')"

definition demo_zod_email :: "string \<Rightarrow> bool" where
  "demo_zod_email s = (CHR ''@'' \<in> set s)"

definition demo_new_Date :: "json option \<Rightarrow> js_date" where
  "demo_new_Date v = (case v of Some (JStr s) \<Rightarrow> ValidDate s | _ \<Rightarrow> InvalidDate)"

definition demo_login :: "json \<Rightarrow> exn + (string \<times> string)" where
  "demo_login u = Inr (''session'', ''jwt.u1'')"

definition demo_libs :: libs where
  "demo_libs =
     \<lparr>bcrypt_hash = demo_bcrypt_hash, bcrypt_compare = demo_bcrypt_compare,
      jwt_sign = demo_jwt_sign, jwt_verify = demo_jwt_verify, zod_email = demo_zod_email,
      new_Date = demo_new_Date, lib_auth_login = demo_login\<rparr>"

definition demo_user :: user where
  "demo_user =
     \<lparr>id = ''u1'', email = ''a@b.com'', password = ''$2a$10$secret123'',
      fullName = Some ''Asha'', role = ''LEARNER'', dateOfBirth = None,
      createdAt = ''2024-01-01T00:00:00.000Z'', updatedAt = ''2024-01-01T00:00:00.000Z''\<rparr>"

definition demo_db :: db where
  "demo_db = \<lparr>rows = [demo_user], fault = None\<rparr>"

definition demo_world :: world where
  "demo_world =
     \<lparr>now = 1700000000, NODE_ENV = Some ''production'', env_JWT_SECRET = None,
      fresh_id = ''u2'', clock_iso = ''2024-02-02T00:00:00.000Z''\<rparr>"

definition post :: "(string \<times> json) list \<Rightarrow> request" where
  "post kvs = \<lparr>headers = [], json_body = Inr (JObj kvs)\<rparr>"

definition get_with :: "(string \<times> string) list \<Rightarrow> request" where
  "get_with hs = \<lparr>headers = hs, json_body = Inl ''SyntaxError: Unexpected end of JSON input''\<rparr>"

section \<open>Properties\<close>

lemmas demo_defs = demo_bcrypt_hash_def demo_bcrypt_compare_def demo_jwt_sign_def
  demo_jwt_verify_def demo_zod_email_def demo_new_Date_def demo_login_def demo_libs_def
  demo_user_def demo_db_def demo_world_def post_def get_with_def

lemmas route_defs = signup_POST_def signup_try_def login_POST_head_def login_head_try_def
  login_POST_cookie_def login_cookie_try_def me_GET_def me_try_def verifyToken_def
  NextResponse_json_def invalid_email_or_password_def invalid_credentials_def
  unauthorized_def user_not_found_def destructure_def js_get_def headers_get_def
  prisma_user_findUnique_email_def prisma_user_findUnique_id_def prisma_user_create_def
  loginSchema_safeParse_def schema_email_def schema_password_def zod_string_def issues_of_def
  zod_issue_def zod_received_def string_of_def optional_string_def JWT_SECRET_def
  seven_days_def token_payload_def omit_def user_obj_def opt_json_def select_user_def
  select_keys_def

subsection \<open>The password hash is in no response payload\<close>

lemma no_password_user: "\<not> json_has_key ''password'' (JObj (omit ''password'' (user_obj u)))"
  by (simp add: omit_def user_obj_def opt_json_def split: option.split)

lemma no_password_select: "\<not> json_has_key ''password'' (JObj (select_user u))"
  by (simp add: select_user_def select_keys_def user_obj_def opt_json_def split: option.split)

lemma no_password_issue: "\<not> json_has_key ''password'' (zod_issue c m p)"
  by (auto simp add: zod_issue_def)

lemma no_password_zod_string:
  "zod_string k v = Inl issues \<Longrightarrow> i \<in> set issues \<Longrightarrow> \<not> json_has_key ''password'' i"
  by (auto simp add: zod_string_def no_password_issue split: option.splits json.splits)

lemma no_password_schema_email:
  "schema_email L v = Inl issues \<Longrightarrow> i \<in> set issues \<Longrightarrow> \<not> json_has_key ''password'' i"
  by (auto simp add: schema_email_def no_password_issue
      dest: no_password_zod_string split: sum.splits if_splits)

lemma no_password_schema_password:
  "schema_password v = Inl issues \<Longrightarrow> i \<in> set issues \<Longrightarrow> \<not> json_has_key ''password'' i"
  by (auto simp add: schema_password_def no_password_issue
      dest: no_password_zod_string split: sum.splits if_splits)

lemma no_password_safeParse:
  "loginSchema_safeParse L b = Inl errors \<Longrightarrow> \<not> json_has_key ''password'' (JArr errors)"
  by (auto simp add: loginSchema_safeParse_def no_password_issue issues_of_def
      dest: no_password_schema_email no_password_schema_password
      split: json.splits sum.splits prod.splits)

lemma signup_no_password: "\<not> json_has_key ''password'' (body (snd (signup_POST L w d req)))"
  using no_password_user
  by (simp add: signup_POST_def signup_try_def NextResponse_json_def Let_def
      split: sum.split option.split prod.split)

lemma login_head_no_password: "\<not> json_has_key ''password'' (body (login_POST_head L w d req))"
  using no_password_user no_password_safeParse
  by (simp add: login_POST_head_def login_head_try_def NextResponse_json_def
      invalid_email_or_password_def
      split: sum.split option.split prod.split)

lemma login_cookie_no_password: "\<not> json_has_key ''password'' (body (login_POST_cookie L w d req))"
  using no_password_user
  by (simp add: login_POST_cookie_def login_cookie_try_def NextResponse_json_def
      invalid_credentials_def
      split: sum.split option.split prod.split)

lemma me_no_password: "\<not> json_has_key ''password'' (body (me_GET L w d req))"
  using no_password_select
  by (simp add: me_GET_def me_try_def NextResponse_json_def unauthorized_def user_not_found_def
      split: sum.split option.split prod.split)

text \<open>
  C1. Whatever the request, the libraries, the table and the outcome, the body of the
  response of signup, of either side of login, and of "who am I" has no property named
  \<open>password\<close> (the column that holds the hash), at any depth.
\<close>

theorem no_password_hash_in_response_payloads:
  "\<not> json_has_key ''password'' (body (snd (signup_POST L w d req))) \<and>
   \<not> json_has_key ''password'' (body (login_POST_head L w d req)) \<and>
   \<not> json_has_key ''password'' (body (login_POST_cookie L w d req)) \<and>
   \<not> json_has_key ''password'' (body (me_GET L w d req))"
  by (simp add: signup_no_password login_head_no_password login_cookie_no_password
      me_no_password)

text \<open>
  The theorem at a login request that succeeds on both sides of the login route: the row
  that is read holds a hash, and no payload shows it.
\<close>

theorem no_password_hash_in_response_payloads_witness:
  "json_has_key ''password'' (JObj (user_obj demo_user)) \<and>
   status (login_POST_head demo_libs demo_world demo_db
             (post [(''email'', JStr ''a@b.com''), (''password'', JStr ''secret123'')])) = 200 \<and>
   status (login_POST_cookie demo_libs demo_world demo_db
             (post [(''email'', JStr ''a@b.com''), (''password'', JStr ''secret123'')])) = 200 \<and>
   \<not> json_has_key ''password'' (body (snd (signup_POST demo_libs demo_world demo_db
             (post [(''email'', JStr ''a@b.com''), (''password'', JStr ''secret123'')])))) \<and>
   \<not> json_has_key ''password'' (body (login_POST_head demo_libs demo_world demo_db
             (post [(''email'', JStr ''a@b.com''), (''password'', JStr ''secret123'')]))) \<and>
   \<not> json_has_key ''password'' (body (login_POST_cookie demo_libs demo_world demo_db
             (post [(''email'', JStr ''a@b.com''), (''password'', JStr ''secret123'')]))) \<and>
   \<not> json_has_key ''password'' (body (me_GET demo_libs demo_world demo_db
             (post [(''email'', JStr ''a@b.com''), (''password'', JStr ''secret123'')])))"
proof -
  have a: "json_has_key ''password'' (JObj (user_obj demo_user))"
    by (simp add: demo_defs user_obj_def)
  have b: "status (login_POST_head demo_libs demo_world demo_db
             (post [(''email'', JStr ''a@b.com''), (''password'', JStr ''secret123'')])) = 200"
    by (simp add: demo_defs route_defs)
  have c: "status (login_POST_cookie demo_libs demo_world demo_db
             (post [(''email'', JStr ''a@b.com''), (''password'', JStr ''secret123'')])) = 200"
    by (simp add: demo_defs route_defs)
  show ?thesis
    using a b c
      no_password_hash_in_response_payloads [of demo_libs demo_world demo_db
        "post [(''email'', JStr ''a@b.com''), (''password'', JStr ''secret123'')]"]
    by simp
qed

subsection \<open>Login: an unknown email and a wrong password\<close>

lemma head_unknown_email:
  "json_body r = Inr b \<Longrightarrow> loginSchema_safeParse L b = Inr (e, p) \<Longrightarrow>
   find (\<lambda>u. email u = e) (rows d) = None \<Longrightarrow>
   login_head_try L w d r =
     (case fault d of Some x \<Rightarrow> Inl x | None \<Rightarrow> Inr invalid_email_or_password)"
  by (simp add: login_head_try_def prisma_user_findUnique_email_def split: option.split)

lemma head_wrong_password:
  "json_body r = Inr b \<Longrightarrow> loginSchema_safeParse L b = Inr (e, p) \<Longrightarrow>
   find (\<lambda>u. email u = e) (rows d) = Some u \<Longrightarrow>
   bcrypt_compare L (Some (JStr p)) (password u) = Inr False \<Longrightarrow>
   login_head_try L w d r =
     (case fault d of Some x \<Rightarrow> Inl x | None \<Rightarrow> Inr invalid_email_or_password)"
  by (simp add: login_head_try_def prisma_user_findUnique_email_def split: option.split)

lemma cookie_unknown_email:
  "json_body r = Inr b \<Longrightarrow> js_get b ''email'' = Some (JStr e) \<Longrightarrow> e \<noteq> [] \<Longrightarrow>
   truthy (js_get b ''password'') \<Longrightarrow>
   find (\<lambda>u. email u = e) (rows d) = None \<Longrightarrow>
   login_cookie_try L w d r =
     (case fault d of Some x \<Rightarrow> Inl x | None \<Rightarrow> Inr invalid_credentials)"
  by (cases b) (simp_all add: login_cookie_try_def destructure_def js_get_def
      prisma_user_findUnique_email_def split: option.split)

lemma cookie_wrong_password:
  "json_body r = Inr b \<Longrightarrow> js_get b ''email'' = Some (JStr e) \<Longrightarrow> e \<noteq> [] \<Longrightarrow>
   truthy (js_get b ''password'') \<Longrightarrow>
   find (\<lambda>u. email u = e) (rows d) = Some u \<Longrightarrow>
   bcrypt_compare L (js_get b ''password'') (password u) = Inr False \<Longrightarrow>
   login_cookie_try L w d r =
     (case fault d of Some x \<Rightarrow> Inl x | None \<Rightarrow> Inr invalid_credentials)"
  by (cases b) (simp_all add: login_cookie_try_def destructure_def js_get_def
      prisma_user_findUnique_email_def split: option.split)

text \<open>
  The HEAD side. Two requests that pass the schema, one with an email no row has and one
  with the email of a row \<open>u\<close> and a password \<open>bcrypt.compare\<close> finds wrong, get
  equal responses: the 401 \<open>Invalid email or password\<close> while the database answers.
  The schema makes the password a string before \<open>bcrypt.compare\<close> sees it.
\<close>

lemma login_head_unknown_email_same_as_wrong_password:
  assumes "json_body ra = Inr ba" and "loginSchema_safeParse L ba = Inr (ea, pa)"
    and "json_body rb = Inr bb" and "loginSchema_safeParse L bb = Inr (eb, pb)"
    and "find (\<lambda>u. email u = ea) (rows d) = None"
    and "find (\<lambda>u. email u = eb) (rows d) = Some u"
    and "bcrypt_compare L (Some (JStr pb)) (password u) = Inr False"
  shows "login_POST_head L w d ra = login_POST_head L w d rb \<and>
         (fault d = None \<longrightarrow>
            status (login_POST_head L w d ra) = 401 \<and>
            js_get (body (login_POST_head L w d ra)) ''message''
              = Some (JStr ''Invalid email or password''))"
proof -
  have a: "login_head_try L w d ra =
      (case fault d of Some x \<Rightarrow> Inl x | None \<Rightarrow> Inr invalid_email_or_password)"
    using assms(1,2,5) by (rule head_unknown_email)
  have b: "login_head_try L w d rb =
      (case fault d of Some x \<Rightarrow> Inl x | None \<Rightarrow> Inr invalid_email_or_password)"
    using assms(3,4,6,7) by (rule head_wrong_password)
  show ?thesis
    by (simp add: login_POST_head_def a b invalid_email_or_password_def
        NextResponse_json_def js_get_def)
qed

text \<open>
  The other side answers alike as long as \<open>bcrypt.compare\<close> returns \<open>false\<close> for
  the wrong password.
\<close>

lemma login_cookie_unknown_email_same_as_wrong_password:
  assumes "json_body ra = Inr ba" and "js_get ba ''email'' = Some (JStr ea)" and "ea \<noteq> []"
    and "truthy (js_get ba ''password'')"
    and "json_body rb = Inr bb" and "js_get bb ''email'' = Some (JStr eb)" and "eb \<noteq> []"
    and "truthy (js_get bb ''password'')"
    and "find (\<lambda>u. email u = ea) (rows d) = None"
    and "find (\<lambda>u. email u = eb) (rows d) = Some u"
    and "bcrypt_compare L (js_get bb ''password'') (password u) = Inr False"
  shows "login_POST_cookie L w d ra = login_POST_cookie L w d rb \<and>
         (fault d = None \<longrightarrow>
            status (login_POST_cookie L w d ra) = 401 \<and>
            js_get (body (login_POST_cookie L w d ra)) ''error''
              = Some (JStr ''Invalid credentials''))"
proof -
  have a: "login_cookie_try L w d ra =
      (case fault d of Some x \<Rightarrow> Inl x | None \<Rightarrow> Inr invalid_credentials)"
    using assms(1,2,3,4,9) by (rule cookie_unknown_email)
  have b: "login_cookie_try L w d rb =
      (case fault d of Some x \<Rightarrow> Inl x | None \<Rightarrow> Inr invalid_credentials)"
    using assms(5,6,7,8,10,11) by (rule cookie_wrong_password)
  show ?thesis
    by (simp add: login_POST_cookie_def a b invalid_credentials_def
        NextResponse_json_def js_get_def)
qed

text \<open>
  On that side nothing makes the password a string: the presence check lets any truthy
  value through. When \<open>bcrypt.compare\<close> throws on it, the request with an email no row
  has is answered 401 before the comparison, and the request with the email of a row is
  answered by the \<open>catch\<close> with the 500.
\<close>

lemma login_cookie_throwing_compare:
  assumes "json_body ra = Inr ba" and "js_get ba ''email'' = Some (JStr ea)" and "ea \<noteq> []"
    and "truthy (js_get ba ''password'')"
    and "json_body rb = Inr bb" and "js_get bb ''email'' = Some (JStr eb)" and "eb \<noteq> []"
    and "truthy (js_get bb ''password'')"
    and "find (\<lambda>u. email u = ea) (rows d) = None"
    and "find (\<lambda>u. email u = eb) (rows d) = Some u"
    and "fault d = None"
    and "bcrypt_compare L (js_get bb ''password'') (password u) = Inl e"
  shows "login_POST_cookie L w d ra = invalid_credentials \<and>
         login_POST_cookie L w d rb
           = NextResponse_json (JObj [(''error'', JStr ''Internal server error'')]) 500"
proof -
  have a: "login_cookie_try L w d ra =
      (case fault d of Some x \<Rightarrow> Inl x | None \<Rightarrow> Inr invalid_credentials)"
    using assms(1,2,3,4,9) by (rule cookie_unknown_email)
  from assms(6) have nn: "destructure bb = Inr bb"
    by (cases bb) (simp_all add: destructure_def js_get_def)
  have b: "login_cookie_try L w d rb = Inl e"
    using assms(5,6,7,8,10,11,12) nn
    by (simp add: login_cookie_try_def prisma_user_findUnique_email_def)
  show ?thesis
    using assms(11) by (simp add: login_POST_cookie_def a b)
qed

text \<open>
  C2. It holds on the HEAD side of the login route
  (\<open>login_head_unknown_email_same_as_wrong_password\<close>) and fails on the other side.
  With the number 123 as password, which \<open>bcrypt.compare\<close> throws on, the HEAD side
  answers both requests 400; the other side answers 401 \<open>Invalid credentials\<close> for
  \<open>ghost@b.com\<close>, which no row has, and 500 \<open>Internal server error\<close> for
  \<open>a@b.com\<close>, which a row has.
\<close>

theorem login_cookie_side_tells_existing_email_apart:
  "find (\<lambda>u. email u = ''ghost@b.com'') (rows demo_db) = None \<and>
   find (\<lambda>u. email u = ''a@b.com'') (rows demo_db) = Some demo_user \<and>
   bcrypt_compare demo_libs (Some (JNum 123)) (password demo_user)
     = Inl ''Error: Illegal arguments'' \<and>
   login_POST_cookie demo_libs demo_world demo_db
     (post [(''email'', JStr ''ghost@b.com''), (''password'', JNum 123)])
   = NextResponse_json (JObj [(''error'', JStr ''Invalid credentials'')]) 401 \<and>
   login_POST_cookie demo_libs demo_world demo_db
     (post [(''email'', JStr ''a@b.com''), (''password'', JNum 123)])
   = NextResponse_json (JObj [(''error'', JStr ''Internal server error'')]) 500 \<and>
   status (login_POST_head demo_libs demo_world demo_db
     (post [(''email'', JStr ''ghost@b.com''), (''password'', JNum 123)])) = 400 \<and>
   status (login_POST_head demo_libs demo_world demo_db
     (post [(''email'', JStr ''a@b.com''), (''password'', JNum 123)])) = 400"
proof -
  let ?ra = "post [(''email'', JStr ''ghost@b.com''), (''password'', JNum 123)]"
  let ?ba = "JObj [(''email'', JStr ''ghost@b.com''), (''password'', JNum 123)]"
  let ?rb = "post [(''email'', JStr ''a@b.com''), (''password'', JNum 123)]"
  let ?bb = "JObj [(''email'', JStr ''a@b.com''), (''password'', JNum 123)]"
  have j1: "json_body ?ra = Inr ?ba" and j2: "json_body ?rb = Inr ?bb"
    by (simp_all add: post_def)
  have c1: "js_get ?ba ''email'' = Some (JStr ''ghost@b.com'')"
    and c2: "''ghost@b.com'' \<noteq> []"
    and c3: "truthy (js_get ?ba ''password'')"
    and c4: "js_get ?bb ''email'' = Some (JStr ''a@b.com'')"
    and c5: "''a@b.com'' \<noteq> []"
    and c6: "truthy (js_get ?bb ''password'')"
    by (simp_all add: js_get_def)
  have h3: "find (\<lambda>u. email u = ''ghost@b.com'') (rows demo_db) = None"
    and h4: "find (\<lambda>u. email u = ''a@b.com'') (rows demo_db) = Some demo_user"
    and h6: "fault demo_db = None"
    by (simp_all add: demo_defs)
  have h5: "bcrypt_compare demo_libs (Some (JNum 123)) (password demo_user)
            = Inl ''Error: Illegal arguments''"
    by (simp add: demo_defs)
  have c7: "bcrypt_compare demo_libs (js_get ?bb ''password'') (password demo_user)
            = Inl ''Error: Illegal arguments''"
    by (simp add: demo_defs js_get_def)
  have A: "login_POST_cookie demo_libs demo_world demo_db ?ra = invalid_credentials \<and>
           login_POST_cookie demo_libs demo_world demo_db ?rb
             = NextResponse_json (JObj [(''error'', JStr ''Internal server error'')]) 500"
    using j1 c1 c2 c3 j2 c4 c5 c6 h3 h4 h6 c7 by (rule login_cookie_throwing_compare)
  have B: "status (login_POST_head demo_libs demo_world demo_db ?ra) = 400"
    by (simp add: demo_defs route_defs)
  have C: "status (login_POST_head demo_libs demo_world demo_db ?rb) = 400"
    by (simp add: demo_defs route_defs)
  show ?thesis
    using h3 h4 h5 A B C by (simp add: invalid_credentials_def)
qed

subsection \<open>Error responses and the text of the error\<close>

lemma login_head_500:
  "status (login_POST_head L w d req) = 500 \<Longrightarrow> NODE_ENV w \<noteq> Some ''development'' \<Longrightarrow>
   body (login_POST_head L w d req)
   = JObj [(''success'', JBool False), (''message'', JStr ''Internal server error'')]"
  by (auto simp add: login_POST_head_def login_head_try_def NextResponse_json_def
      invalid_email_or_password_def split: sum.splits option.splits prod.splits if_splits)

lemma login_cookie_500:
  "status (login_POST_cookie L w d req) = 500 \<Longrightarrow>
   body (login_POST_cookie L w d req) = JObj [(''error'', JStr ''Internal server error'')]"
  by (auto simp add: login_POST_cookie_def login_cookie_try_def NextResponse_json_def
      invalid_credentials_def split: sum.splits option.splits prod.splits if_splits)

lemma me_500:
  "status (me_GET L w d req) = 500 \<Longrightarrow>
   body (me_GET L w d req)
   = JObj [(''success'', JBool False), (''message'', JStr ''Internal server error'')]"
  by (auto simp add: me_GET_def me_try_def NextResponse_json_def
      unauthorized_def user_not_found_def split: sum.splits option.splits prod.splits if_splits)

lemma signup_500:
  "signup_try L w d req = Inl e \<Longrightarrow>
   body (snd (signup_POST L w d req))
   = JObj [(''error'', JStr ''Something went wrong''), (''details'', JStr e)]"
  by (simp add: signup_POST_def NextResponse_json_def)

text \<open>
  C3. Outside development the 500 of either side of login and of "who am I" carries the
  fixed message only (\<open>login_head_500\<close>, \<open>login_cookie_500\<close>, \<open>me_500\<close>). The
  500 of signup always carries the text of the error as \<open>details\<close>, whatever
  \<open>NODE_ENV\<close> is: here a signup in production while the database cannot be reached.
\<close>

theorem signup_error_response_exposes_error_text:
  "NODE_ENV demo_world = Some ''production'' \<and>
   snd (signup_POST demo_libs demo_world
          (demo_db\<lparr>fault := Some ''PrismaClientInitializationError: Can't reach database server at `localhost:5432`''\<rparr>)
          (post [(''email'', JStr ''new@b.com''), (''password'', JStr ''secret123''),
                 (''role'', JStr ''LEARNER'')]))
   = NextResponse_json
       (JObj [(''error'', JStr ''Something went wrong''),
              (''details'', JStr ''PrismaClientInitializationError: Can't reach database server at `localhost:5432`'')])
       500"
  by (simp add: demo_defs signup_POST_def signup_try_def destructure_def js_get_def
      prisma_user_findUnique_email_def)

subsection \<open>Signup with an email that is already taken\<close>

lemma find_email_present:
  "e \<in> set (map email xs) \<Longrightarrow> \<exists>u. find (\<lambda>u. email u = e) xs = Some u"
  by (induction xs) auto

text \<open>
  C4. When a row already has the email of a signup request, the table comes back as it
  was: nothing is created and no row changes. If the request also has a password and a
  role and the database answers, the response is the 400 \<open>User already exists\<close>.
\<close>

theorem signup_existing_email_conflict:
  assumes "json_body req = Inr b"
    and "js_get b ''email'' = Some (JStr e)"
    and "e \<in> set (map email (rows d))"
  shows "fst (signup_POST L w d req) = d \<and>
         (e \<noteq> [] \<and> truthy (js_get b ''password'') \<and> truthy (js_get b ''role'') \<and> fault d = None
          \<longrightarrow> snd (signup_POST L w d req)
                = NextResponse_json (JObj [(''error'', JStr ''User already exists'')]) 400)"
proof -
  from assms(3) obtain u where u: "find (\<lambda>u. email u = e) (rows d) = Some u"
    using find_email_present by blast
  from assms(2) have nn: "destructure b = Inr b"
    by (cases b) (simp_all add: destructure_def js_get_def)
  show ?thesis
    using assms(1,2) u nn
    by (simp add: signup_POST_def signup_try_def prisma_user_findUnique_email_def
        split: option.split)
qed

text \<open>The theorem at a second signup with \<open>a@b.com\<close>, which the table already has.\<close>

theorem signup_existing_email_conflict_witness:
  "''a@b.com'' \<in> set (map email (rows demo_db)) \<and>
   fst (signup_POST demo_libs demo_world demo_db
          (post [(''email'', JStr ''a@b.com''), (''password'', JStr ''other''),
                 (''role'', JStr ''TEACHER'')])) = demo_db \<and>
   snd (signup_POST demo_libs demo_world demo_db
          (post [(''email'', JStr ''a@b.com''), (''password'', JStr ''other''),
                 (''role'', JStr ''TEACHER'')]))
   = NextResponse_json (JObj [(''error'', JStr ''User already exists'')]) 400"
proof -
  have h1: "json_body (post [(''email'', JStr ''a@b.com''), (''password'', JStr ''other''),
                 (''role'', JStr ''TEACHER'')])
            = Inr (JObj [(''email'', JStr ''a@b.com''), (''password'', JStr ''other''),
                 (''role'', JStr ''TEACHER'')])"
    by (simp add: post_def)
  have h2: "js_get (JObj [(''email'', JStr ''a@b.com''), (''password'', JStr ''other''),
                 (''role'', JStr ''TEACHER'')]) ''email'' = Some (JStr ''a@b.com'')"
    by (simp add: js_get_def)
  have h3: "''a@b.com'' \<in> set (map email (rows demo_db))"
    by (simp add: demo_defs)
  have h4: "fault demo_db = None"
    by (simp add: demo_defs)
  show ?thesis
    using h3 h4 signup_existing_email_conflict [OF h1 h2 h3, of demo_libs demo_world]
    by (simp add: js_get_def)
qed

subsection \<open>Tokens and "who am I"\<close>

lemma me_without_payload: "verifyToken L w req = None \<Longrightarrow> me_GET L w d req = unauthorized"
  by (simp add: me_GET_def me_try_def)

lemma verifyToken_bearer:
  "headers_get req ''authorization'' = Some (''Bearer '' @ t) \<Longrightarrow>
   jwt_verify L t (JWT_SECRET w) (now w) = Inr dec \<Longrightarrow> verifyToken L w req = Some dec"
  by (simp add: verifyToken_def)

lemma find_id_absent: "i \<notin> set (map id xs) \<Longrightarrow> find (\<lambda>u. id u = i) xs = None"
  by (induction xs) auto

lemma has_id_truthy: "js_get dec ''id'' = Some v \<Longrightarrow> truthy (Some dec)"
  by (cases dec) (simp_all add: js_get_def)

lemma login_head_200:
  assumes "status (login_POST_head L w d req) = 200"
  shows "\<exists>u0 tok.
           jwt_sign L (token_payload u0) (JWT_SECRET w) seven_days (now w) = Inr tok \<and>
           login_POST_head L w d req
           = NextResponse_json
               (JObj [(''success'', JBool True), (''message'', JStr ''Login successful''),
                      (''token'', JStr tok),
                      (''user'', JObj (omit ''password'' (user_obj u0)))]) 200"
  using assms
  by (auto simp add: login_POST_head_def login_head_try_def NextResponse_json_def
      invalid_email_or_password_def
      split: sum.splits option.splits prod.splits if_splits)

lemma public_fields_id_email:
  "omit ''password'' (user_obj u) = omit ''password'' (user_obj v) \<Longrightarrow>
   id u = id v \<and> email u = email v"
  by (simp add: omit_def user_obj_def)

lemma find_by_primary_key:
  "distinct (map id xs) \<Longrightarrow> u \<in> set xs \<Longrightarrow> find (\<lambda>x. id x = id u) xs = Some u"
  by (induction xs) (auto simp add: rev_image_eqI)

lemma select_user_id_email:
  "js_get (JObj (select_user u)) ''id'' = Some (JStr (id u)) \<and>
   js_get (JObj (select_user u)) ''email'' = Some (JStr (email u))"
  by (simp add: select_user_def select_keys_def user_obj_def js_get_def)

text \<open>
  C5. Let the HEAD side of login succeed with token \<open>t\<close> for the row \<open>u\<close> its
  response shows. Let the token library give back at time \<open>later\<close> the \<open>id\<close> of
  whatever payload it signed into \<open>t\<close> (its own round trip, for an unexpired token).
  Then "who am I" with \<open>Bearer t\<close>, while \<open>u\<close> is still in the table (keyed by
  \<open>id\<close>) and the database answers, is the 200 that shows \<open>u\<close>, with the \<open>id\<close>
  and \<open>email\<close> stored in the row.
\<close>

theorem login_token_round_trip:
  assumes login: "status (login_POST_head L w d req) = 200"
    and token: "js_get (body (login_POST_head L w d req)) ''token'' = Some (JStr t)"
    and usr: "js_get (body (login_POST_head L w d req)) ''user''
              = Some (JObj (omit ''password'' (user_obj u)))"
    and lib: "\<And>p. jwt_sign L p (JWT_SECRET w) seven_days (now w) = Inr t \<Longrightarrow>
                \<exists>dec. jwt_verify L t (JWT_SECRET w) later = Inr dec \<and>
                      js_get dec ''id'' = js_get p ''id''"
    and still: "u \<in> set (rows d')" "distinct (map id (rows d'))" "fault d' = None"
    and hdr: "headers_get req' ''authorization'' = Some (''Bearer '' @ t)"
  shows "me_GET L (w\<lparr>now := later\<rparr>) d' req'
         = NextResponse_json (JObj [(''success'', JBool True), (''user'', JObj (select_user u))]) 200
         \<and> js_get (JObj (select_user u)) ''id'' = Some (JStr (id u))
         \<and> js_get (JObj (select_user u)) ''email'' = Some (JStr (email u))"
proof -
  from login obtain u0 tok where
    sign: "jwt_sign L (token_payload u0) (JWT_SECRET w) seven_days (now w) = Inr tok" and
    resp: "login_POST_head L w d req
           = NextResponse_json
               (JObj [(''success'', JBool True), (''message'', JStr ''Login successful''),
                      (''token'', JStr tok),
                      (''user'', JObj (omit ''password'' (user_obj u0)))]) 200"
    using login_head_200 by blast
  from token resp have tok: "tok = t"
    by (simp add: NextResponse_json_def js_get_def)
  from usr resp have "omit ''password'' (user_obj u0) = omit ''password'' (user_obj u)"
    by (simp add: NextResponse_json_def js_get_def)
  then have same: "id u0 = id u"
    using public_fields_id_email by blast
  from lib sign tok obtain dec where
    ver: "jwt_verify L t (JWT_SECRET w) later = Inr dec" and
    decid: "js_get dec ''id'' = js_get (token_payload u0) ''id''"
    by blast
  from decid same have decid': "js_get dec ''id'' = Some (JStr (id u))"
    by (simp add: token_payload_def js_get_def)
  have secret: "JWT_SECRET (w\<lparr>now := later\<rparr>) = JWT_SECRET w"
    by (simp add: JWT_SECRET_def)
  have v: "verifyToken L (w\<lparr>now := later\<rparr>) req' = Some dec"
    using hdr ver secret by (simp add: verifyToken_def)
  have tr: "truthy (Some dec)"
    using decid' by (rule has_id_truthy)
  have f: "find (\<lambda>x. id x = id u) (rows d') = Some u"
    using still(2,1) by (rule find_by_primary_key)
  have "me_GET L (w\<lparr>now := later\<rparr>) d' req'
         = NextResponse_json (JObj [(''success'', JBool True), (''user'', JObj (select_user u))]) 200"
    using v tr f decid' still(3)
    by (simp add: me_GET_def me_try_def prisma_user_findUnique_id_def)
  then show ?thesis
    using select_user_id_email by simp
qed

text \<open>
  The theorem at a login of \<open>a@b.com\<close> and a "who am I" a hundred seconds later with
  the token that login returned.
\<close>

theorem login_token_round_trip_witness:
  "status (login_POST_head demo_libs demo_world demo_db
             (post [(''email'', JStr ''a@b.com''), (''password'', JStr ''secret123'')])) = 200 \<and>
   js_get (body (login_POST_head demo_libs demo_world demo_db
             (post [(''email'', JStr ''a@b.com''), (''password'', JStr ''secret123'')]))) ''token''
     = Some (JStr ''jwt.u1'') \<and>
   me_GET demo_libs (demo_world\<lparr>now := 1700000100\<rparr>) demo_db
     (get_with [(''authorization'', ''Bearer jwt.u1'')])
   = NextResponse_json
       (JObj [(''success'', JBool True), (''user'', JObj (select_user demo_user))]) 200 \<and>
   js_get (JObj (select_user demo_user)) ''id'' = Some (JStr ''u1'') \<and>
   js_get (JObj (select_user demo_user)) ''email'' = Some (JStr ''a@b.com'')"
proof -
  let ?req = "post [(''email'', JStr ''a@b.com''), (''password'', JStr ''secret123'')]"
  have r: "login_POST_head demo_libs demo_world demo_db ?req
           = NextResponse_json
               (JObj [(''success'', JBool True), (''message'', JStr ''Login successful''),
                      (''token'', JStr ''jwt.u1''),
                      (''user'', JObj (omit ''password'' (user_obj demo_user)))]) 200"
    by (simp add: demo_defs route_defs)
  have h1: "status (login_POST_head demo_libs demo_world demo_db ?req) = 200"
    by (simp add: r NextResponse_json_def)
  have h2: "js_get (body (login_POST_head demo_libs demo_world demo_db ?req)) ''token''
            = Some (JStr ''jwt.u1'')"
    by (simp add: r NextResponse_json_def js_get_def)
  have h3: "js_get (body (login_POST_head demo_libs demo_world demo_db ?req)) ''user''
            = Some (JObj (omit ''password'' (user_obj demo_user)))"
    by (simp add: r NextResponse_json_def js_get_def)
  have h4: "\<And>p. jwt_sign demo_libs p (JWT_SECRET demo_world) seven_days (now demo_world)
                  = Inr ''jwt.u1'' \<Longrightarrow>
              \<exists>dec. jwt_verify demo_libs ''jwt.u1'' (JWT_SECRET demo_world) 1700000100 = Inr dec \<and>
                    js_get dec ''id'' = js_get p ''id''"
    by (auto simp add: demo_defs js_get_def split: option.splits json.splits)
  have h5: "demo_user \<in> set (rows demo_db)"
    and h6: "distinct (map id (rows demo_db))"
    and h7: "fault demo_db = None"
    by (simp_all add: demo_defs)
  have h8: "headers_get (get_with [(''authorization'', ''Bearer jwt.u1'')]) ''authorization''
            = Some (''Bearer '' @ ''jwt.u1'')"
    by (simp add: get_with_def headers_get_def)
  have i: "id demo_user = ''u1''" and e: "email demo_user = ''a@b.com''"
    by (simp_all add: demo_defs)
  show ?thesis
    using h1 h2 login_token_round_trip [OF h1 h2 h3 h4 h5 h6 h7 h8] i e
    by simp
qed

text \<open>
  C6, as the code has it. "Who am I" takes the credential from the \<open>authorization\<close>
  header only. A request without that header is answered 401 whatever else it carries,
  a session cookie included; a request whose header is \<open>Bearer t\<close>, with \<open>t\<close> a
  token the library verifies for the \<open>id\<close> of a row, is answered 200 with that row.
\<close>

theorem me_accepts_bearer_header_only:
  "(headers_get reqc ''authorization'' = None \<longrightarrow>
      me_GET L w d reqc = unauthorized \<and> status (me_GET L w d reqc) = 401)
   \<and>
   (headers_get req ''authorization'' = Some (''Bearer '' @ t) \<and>
    jwt_verify L t (JWT_SECRET w) (now w) = Inr dec \<and>
    js_get dec ''id'' = Some (JStr i) \<and>
    fault d = None \<and> find (\<lambda>u. id u = i) (rows d) = Some u
    \<longrightarrow> me_GET L w d req
        = NextResponse_json (JObj [(''success'', JBool True), (''user'', JObj (select_user u))]) 200)"
proof (intro conjI impI)
  assume "headers_get reqc ''authorization'' = None"
  then have "verifyToken L w reqc = None"
    by (simp add: verifyToken_def)
  then show "me_GET L w d reqc = unauthorized"
    by (rule me_without_payload)
  then show "status (me_GET L w d reqc) = 401"
    by (simp add: unauthorized_def NextResponse_json_def)
next
  assume h: "headers_get req ''authorization'' = Some (''Bearer '' @ t) \<and>
    jwt_verify L t (JWT_SECRET w) (now w) = Inr dec \<and>
    js_get dec ''id'' = Some (JStr i) \<and>
    fault d = None \<and> find (\<lambda>u. id u = i) (rows d) = Some u"
  then have v: "verifyToken L w req = Some dec"
    by (simp add: verifyToken_bearer)
  from h have t: "truthy (Some dec)"
    by (simp add: has_id_truthy)
  show "me_GET L w d req
        = NextResponse_json (JObj [(''success'', JBool True), (''user'', JObj (select_user u))]) 200"
    using v t h by (simp add: me_GET_def me_try_def prisma_user_findUnique_id_def)
qed

text \<open>
  The theorem at one token, carried once in a session cookie and once in the header.
\<close>

theorem me_accepts_bearer_header_only_witness:
  "headers_get (get_with [(''cookie'', ''session=jwt.u1'')]) ''cookie'' = Some ''session=jwt.u1'' \<and>
   headers_get (get_with [(''cookie'', ''session=jwt.u1'')]) ''authorization'' = None \<and>
   me_GET demo_libs demo_world demo_db (get_with [(''cookie'', ''session=jwt.u1'')])
     = unauthorized \<and>
   me_GET demo_libs demo_world demo_db (get_with [(''authorization'', ''Bearer jwt.u1'')])
     = NextResponse_json
         (JObj [(''success'', JBool True), (''user'', JObj (select_user demo_user))]) 200"
proof -
  let ?reqc = "get_with [(''cookie'', ''session=jwt.u1'')]"
  let ?req = "get_with [(''authorization'', ''Bearer jwt.u1'')]"
  have c0: "headers_get ?reqc ''cookie'' = Some ''session=jwt.u1''"
    and c1: "headers_get ?reqc ''authorization'' = None"
    by (simp_all add: get_with_def headers_get_def)
  have h1: "headers_get ?req ''authorization'' = Some (''Bearer '' @ ''jwt.u1'')"
    by (simp add: get_with_def headers_get_def)
  have h2: "jwt_verify demo_libs ''jwt.u1'' (JWT_SECRET demo_world) (now demo_world)
            = Inr (JObj [(''id'', JStr ''u1'')])"
    by (simp add: demo_defs)
  have h3: "js_get (JObj [(''id'', JStr ''u1'')]) ''id'' = Some (JStr ''u1'')"
    by (simp add: js_get_def)
  have h4: "fault demo_db = None"
    and h5: "find (\<lambda>u. id u = ''u1'') (rows demo_db) = Some demo_user"
    by (simp_all add: demo_defs)
  note T = me_accepts_bearer_header_only
             [of ?reqc demo_libs demo_world demo_db ?req "''jwt.u1''"
                 "JObj [(''id'', JStr ''u1'')]" "''u1''" demo_user]
  have A: "me_GET demo_libs demo_world demo_db ?reqc = unauthorized \<and>
           status (me_GET demo_libs demo_world demo_db ?reqc) = 401"
    by (rule T [THEN conjunct1, THEN mp]) (rule c1)
  have B: "me_GET demo_libs demo_world demo_db ?req
           = NextResponse_json
               (JObj [(''success'', JBool True), (''user'', JObj (select_user demo_user))]) 200"
    by (rule T [THEN conjunct2, THEN mp]) (intro conjI h1 h2 h3 h4 h5)
  show ?thesis
    using c0 c1 A B by blast
qed

text \<open>
  C6 as stated fails: the token that the header carries to a 200 is answered 401 when a
  session cookie carries it, as the cookie side of login sets it.
\<close>

theorem me_session_cookie_counterexample:
  "cookies (login_POST_cookie demo_libs demo_world demo_db
              (post [(''email'', JStr ''a@b.com''), (''password'', JStr ''secret123'')]))
     = [(''session'', ''jwt.u1'')] \<and>
   status (me_GET demo_libs demo_world demo_db
             (get_with [(''authorization'', ''Bearer jwt.u1'')])) = 200 \<and>
   status (me_GET demo_libs demo_world demo_db
             (get_with [(''cookie'', ''session=jwt.u1'')])) = 401"
  by (simp add: demo_defs route_defs)

text \<open>
  C7. When the \<open>authorization\<close> header is missing or empty, does not start with
  \<open>Bearer \<close>, or carries a token \<open>jwt.verify\<close> throws on (malformed, expired, bad
  signature), \<open>verifyToken\<close> returns \<open>null\<close> and "who am I" answers the 401
  \<open>Unauthorized - Invalid or missing token\<close>, whatever the state of the database.
\<close>

theorem me_rejects_missing_or_bad_token:
  assumes "headers_get req ''authorization'' = None
           \<or> (\<exists>h. headers_get req ''authorization'' = Some h \<and>
                  (h = [] \<or> take 7 h \<noteq> ''Bearer ''
                   \<or> (\<exists>e. jwt_verify L (drop 7 h) (JWT_SECRET w) (now w) = Inl e)))"
  shows "verifyToken L w req = None \<and> me_GET L w d req = unauthorized
         \<and> status (me_GET L w d req) = 401"
proof -
  from assms have v: "verifyToken L w req = None"
    by (auto simp add: verifyToken_def)
  then have "me_GET L w d req = unauthorized"
    by (rule me_without_payload)
  with v show ?thesis
    by (simp add: unauthorized_def NextResponse_json_def)
qed

text \<open>The theorem at a header whose token the library throws on.\<close>

theorem me_rejects_missing_or_bad_token_witness:
  "jwt_verify demo_libs (drop 7 ''Bearer garbage'') (JWT_SECRET demo_world) (now demo_world)
     = Inl ''JsonWebTokenError: jwt malformed'' \<and>
   verifyToken demo_libs demo_world (get_with [(''authorization'', ''Bearer garbage'')]) = None \<and>
   me_GET demo_libs demo_world demo_db (get_with [(''authorization'', ''Bearer garbage'')])
     = unauthorized \<and>
   status (me_GET demo_libs demo_world demo_db
             (get_with [(''authorization'', ''Bearer garbage'')])) = 401"
proof -
  let ?req = "get_with [(''authorization'', ''Bearer garbage'')]"
  have h1: "headers_get ?req ''authorization'' = Some ''Bearer garbage''"
    by (simp add: get_with_def headers_get_def)
  have h2: "jwt_verify demo_libs (drop 7 ''Bearer garbage'') (JWT_SECRET demo_world)
              (now demo_world) = Inl ''JsonWebTokenError: jwt malformed''"
    by (simp add: demo_defs)
  have h: "headers_get ?req ''authorization'' = None
           \<or> (\<exists>h. headers_get ?req ''authorization'' = Some h \<and>
                  (h = [] \<or> take 7 h \<noteq> ''Bearer ''
                   \<or> (\<exists>e. jwt_verify demo_libs (drop 7 h) (JWT_SECRET demo_world)
                             (now demo_world) = Inl e)))"
    using h1 h2 by blast
  show ?thesis
    using h2 me_rejects_missing_or_bad_token [OF h, of demo_db] by blast
qed

text \<open>
  C8. When the header carries a token the library verifies, and the \<open>id\<close> in its
  payload is the \<open>id\<close> of no row, "who am I" never answers 200; while the database
  answers, the response is the 404 \<open>User not found\<close>.
\<close>

theorem me_unknown_user_not_found:
  assumes "headers_get req ''authorization'' = Some (''Bearer '' @ t)"
    and "jwt_verify L t (JWT_SECRET w) (now w) = Inr dec"
    and "js_get dec ''id'' = Some (JStr i)"
    and "i \<notin> set (map id (rows d))"
  shows "status (me_GET L w d req) \<noteq> 200 \<and>
         (fault d = None \<longrightarrow> me_GET L w d req = user_not_found \<and> status (me_GET L w d req) = 404)"
proof -
  have v: "verifyToken L w req = Some dec"
    using assms(1,2) by (rule verifyToken_bearer)
  have t: "truthy (Some dec)"
    using assms(3) by (rule has_id_truthy)
  have f: "find (\<lambda>u. id u = i) (rows d) = None"
    using assms(4) by (rule find_id_absent)
  show ?thesis
    using v t f assms(3)
    by (simp add: me_GET_def me_try_def prisma_user_findUnique_id_def user_not_found_def
        NextResponse_json_def split: option.split)
qed

text \<open>The theorem at a token for \<open>u9\<close>, an id the table does not have.\<close>

theorem me_unknown_user_not_found_witness:
  "''u9'' \<notin> set (map id (rows demo_db)) \<and> fault demo_db = None \<and>
   me_GET demo_libs demo_world demo_db (get_with [(''authorization'', ''Bearer jwt.u9'')])
     = user_not_found \<and>
   status (me_GET demo_libs demo_world demo_db
             (get_with [(''authorization'', ''Bearer jwt.u9'')])) = 404"
proof -
  let ?req = "get_with [(''authorization'', ''Bearer jwt.u9'')]"
  have h1: "headers_get ?req ''authorization'' = Some (''Bearer '' @ ''jwt.u9'')"
    by (simp add: get_with_def headers_get_def)
  have h2: "jwt_verify demo_libs ''jwt.u9'' (JWT_SECRET demo_world) (now demo_world)
            = Inr (JObj [(''id'', JStr ''u9'')])"
    by (simp add: demo_defs)
  have h3: "js_get (JObj [(''id'', JStr ''u9'')]) ''id'' = Some (JStr ''u9'')"
    by (simp add: js_get_def)
  have h4: "''u9'' \<notin> set (map id (rows demo_db))"
    and h5: "fault demo_db = None"
    by (simp_all add: demo_defs)
  show ?thesis
    using h4 h5 me_unknown_user_not_found [OF h1 h2 h3 h4] by blast
qed

subsection \<open>What signup checks of its input\<close>

text \<open>
  C9, as the code has it. A signup request whose \<open>role\<close> is left out (or is falsy) is
  answered 400 \<open>Missing required fields\<close> and the table is untouched: the role is
  required, not defaulted.
\<close>

theorem signup_requires_role:
  assumes "json_body req = Inr b" and "b \<noteq> JNull" and "\<not> truthy (js_get b ''role'')"
  shows "signup_POST L w d req
         = (d, NextResponse_json (JObj [(''error'', JStr ''Missing required fields'')]) 400)"
proof -
  from assms(2) have "destructure b = Inr b"
    by (cases b) (simp_all add: destructure_def)
  then show ?thesis
    using assms(1,3) by (simp add: signup_POST_def signup_try_def)
qed

text \<open>The theorem at a request with a fresh email and a password, and no role.\<close>

theorem signup_requires_role_witness:
  "js_get (JObj [(''email'', JStr ''new@b.com''), (''password'', JStr ''secret123'')]) ''role''
     = None \<and>
   signup_POST demo_libs demo_world demo_db
     (post [(''email'', JStr ''new@b.com''), (''password'', JStr ''secret123'')])
   = (demo_db, NextResponse_json (JObj [(''error'', JStr ''Missing required fields'')]) 400)"
proof -
  let ?b = "JObj [(''email'', JStr ''new@b.com''), (''password'', JStr ''secret123'')]"
  have h0: "js_get ?b ''role'' = None"
    by (simp add: js_get_def)
  have h1: "json_body (post [(''email'', JStr ''new@b.com''), (''password'', JStr ''secret123'')])
            = Inr ?b"
    by (simp add: post_def)
  have h2: "?b \<noteq> JNull"
    by simp
  have h3: "\<not> truthy (js_get ?b ''role'')"
    by (simp add: js_get_def)
  show ?thesis
    using h0 signup_requires_role [OF h1 h2 h3, of demo_libs demo_world demo_db] by blast
qed

text \<open>
  C9 as stated fails: with an email and a password and no role, signup answers 400 and
  creates nothing.
\<close>

theorem signup_without_role_counterexample:
  "signup_POST demo_libs demo_world demo_db
     (post [(''email'', JStr ''new@b.com''), (''password'', JStr ''secret123'')])
   = (demo_db, NextResponse_json (JObj [(''error'', JStr ''Missing required fields'')]) 400)"
  by (simp add: demo_defs signup_POST_def signup_try_def destructure_def js_get_def)

lemma find_email_absent:
  "e \<notin> set (map email xs) \<Longrightarrow> find (\<lambda>u. email u = e) xs = None"
  by (induction xs) auto

text \<open>
  C10, as the code has it. Signup rejects an email that is missing or falsy (400
  \<open>Missing required fields\<close>, table untouched), and makes no other check of it: every
  non-empty string that is the email of no row is accepted, whatever its syntax. With a
  password the hashing accepts, a role, a \<open>fullName\<close> and a \<open>dateOfBirth\<close> the table
  takes, and the database answering, the response is the 201 that shows this email and
  the table has one more row, with this email.
\<close>

theorem signup_checks_email_presence_only:
  "(json_body reqa = Inr ba \<and> ba \<noteq> JNull \<and> \<not> truthy (js_get ba ''email'')
    \<longrightarrow> signup_POST L w d reqa
         = (d, NextResponse_json (JObj [(''error'', JStr ''Missing required fields'')]) 400))
   \<and>
   (json_body req = Inr b \<and> js_get b ''email'' = Some (JStr e) \<and> e \<noteq> [] \<and>
    e \<notin> set (map email (rows d)) \<and>
    bcrypt_hash L (js_get b ''password'') 10 = Inr h \<and> truthy (js_get b ''password'') \<and>
    js_get b ''role'' = Some (JStr r) \<and> r \<noteq> [] \<and>
    optional_string (js_get b ''fullName'') \<and>
    (truthy (js_get b ''dateOfBirth'') \<longrightarrow> new_Date L (js_get b ''dateOfBirth'') \<noteq> InvalidDate) \<and>
    fault d = None \<and> fresh_id w \<notin> set (map id (rows d))
    \<longrightarrow> status (snd (signup_POST L w d req)) = 201 \<and>
        js_get (body (snd (signup_POST L w d req))) ''email'' = Some (JStr e) \<and>
        map email (rows (fst (signup_POST L w d req))) = map email (rows d) @ [e])"
proof (intro conjI impI)
  assume h: "json_body reqa = Inr ba \<and> ba \<noteq> JNull \<and> \<not> truthy (js_get ba ''email'')"
  then have "destructure ba = Inr ba"
    by (cases ba) (simp_all add: destructure_def)
  then show "signup_POST L w d reqa
         = (d, NextResponse_json (JObj [(''error'', JStr ''Missing required fields'')]) 400)"
    using h by (simp add: signup_POST_def signup_try_def)
next
  assume h: "json_body req = Inr b \<and> js_get b ''email'' = Some (JStr e) \<and> e \<noteq> [] \<and>
    e \<notin> set (map email (rows d)) \<and>
    bcrypt_hash L (js_get b ''password'') 10 = Inr h \<and> truthy (js_get b ''password'') \<and>
    js_get b ''role'' = Some (JStr r) \<and> r \<noteq> [] \<and>
    optional_string (js_get b ''fullName'') \<and>
    (truthy (js_get b ''dateOfBirth'') \<longrightarrow> new_Date L (js_get b ''dateOfBirth'') \<noteq> InvalidDate) \<and>
    fault d = None \<and> fresh_id w \<notin> set (map id (rows d))"
  then have nn: "destructure b = Inr b"
    by (cases b) (simp_all add: destructure_def js_get_def)
  from h have f: "find (\<lambda>u. email u = e) (rows d) = None"
    by (simp add: find_email_absent)
  let ?nu = "\<lparr>id = fresh_id w, email = e, password = h,
              fullName = string_of (js_get b ''fullName''), role = r,
              dateOfBirth =
                (case (if truthy (js_get b ''dateOfBirth'')
                       then Some (new_Date L (js_get b ''dateOfBirth'')) else None) of
                   Some (ValidDate t) \<Rightarrow> Some t | _ \<Rightarrow> None),
              createdAt = clock_iso w, updatedAt = clock_iso w\<rparr>"
  have nu: "signup_try L w d req
      = Inr (d\<lparr>rows := rows d @ [?nu]\<rparr>,
             NextResponse_json (JObj (omit ''password'' (user_obj ?nu))) 201)"
    using h nn f
    by (simp add: signup_try_def prisma_user_findUnique_email_def prisma_user_create_def
        string_of_def Let_def)
  have em: "email ?nu = e"
    by simp
  have r: "signup_POST L w d req
      = (d\<lparr>rows := rows d @ [?nu]\<rparr>,
         NextResponse_json (JObj (omit ''password'' (user_obj ?nu))) 201)"
    by (simp add: signup_POST_def nu)
  show "status (snd (signup_POST L w d req)) = 201"
    by (simp add: r NextResponse_json_def)
  show "js_get (body (snd (signup_POST L w d req))) ''email'' = Some (JStr e)"
    by (simp add: r NextResponse_json_def js_get_def omit_def user_obj_def)
  show "map email (rows (fst (signup_POST L w d req))) = map email (rows d) @ [e]"
    by (simp add: r)
qed

text \<open>
  The theorem at a request whose email is the empty string, and at one whose email is
  \<open>not-an-email\<close>.
\<close>

theorem signup_checks_email_presence_only_witness:
  "\<not> truthy (js_get (JObj [(''email'', JStr ''''), (''password'', JStr ''secret123''),
                           (''role'', JStr ''LEARNER'')]) ''email'') \<and>
   signup_POST demo_libs demo_world demo_db
     (post [(''email'', JStr ''''), (''password'', JStr ''secret123''), (''role'', JStr ''LEARNER'')])
   = (demo_db, NextResponse_json (JObj [(''error'', JStr ''Missing required fields'')]) 400) \<and>
   \<not> zod_email demo_libs ''not-an-email'' \<and>
   status (snd (signup_POST demo_libs demo_world demo_db
     (post [(''email'', JStr ''not-an-email''), (''password'', JStr ''secret123''),
            (''role'', JStr ''LEARNER'')]))) = 201 \<and>
   map email (rows (fst (signup_POST demo_libs demo_world demo_db
     (post [(''email'', JStr ''not-an-email''), (''password'', JStr ''secret123''),
            (''role'', JStr ''LEARNER'')])))) = map email (rows demo_db) @ [''not-an-email'']"
proof -
  let ?ba = "JObj [(''email'', JStr ''''), (''password'', JStr ''secret123''),
                   (''role'', JStr ''LEARNER'')]"
  let ?reqa = "post [(''email'', JStr ''''), (''password'', JStr ''secret123''),
                     (''role'', JStr ''LEARNER'')]"
  let ?b = "JObj [(''email'', JStr ''not-an-email''), (''password'', JStr ''secret123''),
                  (''role'', JStr ''LEARNER'')]"
  let ?req = "post [(''email'', JStr ''not-an-email''), (''password'', JStr ''secret123''),
                    (''role'', JStr ''LEARNER'')]"
  have a1: "json_body ?reqa = Inr ?ba" and a2: "?ba \<noteq> JNull"
    and a3: "\<not> truthy (js_get ?ba ''email'')"
    by (simp_all add: post_def js_get_def)
  have b1: "json_body ?req = Inr ?b"
    and b2: "js_get ?b ''email'' = Some (JStr ''not-an-email'')"
    and b3: "''not-an-email'' \<noteq> []"
    and b6: "truthy (js_get ?b ''password'')"
    and b7: "js_get ?b ''role'' = Some (JStr ''LEARNER'')"
    and b8: "''LEARNER'' \<noteq> []"
    and b9: "optional_string (js_get ?b ''fullName'')"
    and b10: "truthy (js_get ?b ''dateOfBirth'')
              \<longrightarrow> new_Date demo_libs (js_get ?b ''dateOfBirth'') \<noteq> InvalidDate"
    by (simp_all add: post_def js_get_def optional_string_def)
  have b4: "''not-an-email'' \<notin> set (map email (rows demo_db))"
    and b5: "bcrypt_hash demo_libs (js_get ?b ''password'') 10 = Inr ''$2a$10$secret123''"
    and b11: "fault demo_db = None"
    and b12: "fresh_id demo_world \<notin> set (map id (rows demo_db))"
    and z: "\<not> zod_email demo_libs ''not-an-email''"
    by (simp_all add: demo_defs js_get_def)
  note T = signup_checks_email_presence_only
             [of ?reqa ?ba demo_libs demo_world demo_db ?req ?b "''not-an-email''"
                 "''$2a$10$secret123''" "''LEARNER''"]
  have A: "signup_POST demo_libs demo_world demo_db ?reqa
        = (demo_db, NextResponse_json (JObj [(''error'', JStr ''Missing required fields'')]) 400)"
    by (rule T [THEN conjunct1, THEN mp]) (intro conjI a1 a2 a3)
  have B: "status (snd (signup_POST demo_libs demo_world demo_db ?req)) = 201 \<and>
        js_get (body (snd (signup_POST demo_libs demo_world demo_db ?req))) ''email''
          = Some (JStr ''not-an-email'') \<and>
        map email (rows (fst (signup_POST demo_libs demo_world demo_db ?req)))
          = map email (rows demo_db) @ [''not-an-email'']"
    by (rule T [THEN conjunct2, THEN mp]) (intro conjI b1 b2 b3 b4 b5 b6 b7 b8 b9 b10 b11 b12)
  show ?thesis
    using a3 z A B by blast
qed

text \<open>
  C10 as stated fails: \<open>not-an-email\<close>, which the syntax test rejects, is accepted by
  signup, which answers 201 and adds the row.
\<close>

theorem signup_invalid_email_counterexample:
  "\<not> zod_email demo_libs ''not-an-email'' \<and>
   status (snd (signup_POST demo_libs demo_world demo_db
     (post [(''email'', JStr ''not-an-email''), (''password'', JStr ''secret123''),
            (''role'', JStr ''LEARNER'')]))) = 201 \<and>
   map email (rows (fst (signup_POST demo_libs demo_world demo_db
     (post [(''email'', JStr ''not-an-email''), (''password'', JStr ''secret123''),
            (''role'', JStr ''LEARNER'')])))) = [''a@b.com'', ''not-an-email'']"
  by (simp add: demo_defs signup_POST_def signup_try_def destructure_def js_get_def
      prisma_user_findUnique_email_def prisma_user_create_def string_of_def
      optional_string_def NextResponse_json_def Let_def)


end
